theory Spec2Isabelle
  imports Complex_Main
begin

section \<open>TrustBridge: data model\<close>

text \<open>
  The application keeps two process-wide dictionaries in \<^verbatim>\<open>st.session_state\<close>:
  \<^verbatim>\<open>users_db\<close> (email to profile) and \<^verbatim>\<open>transactions_db\<close> (email to the list of
  that user's transactions, most recently saved first).  A transaction is the dictionary
  built in \<^verbatim>\<open>add_transaction_form\<close>; its \<^verbatim>\<open>date\<close> is a \<^verbatim>\<open>datetime\<close> there, and
  every reader of the field also accepts a string.

  Amounts are Python numbers.  The scoring code only adds them up and compares two sums,
  so the amount type is left open: the scoring definitions need a zero, an addition and
  an order, and say nothing else about the arithmetic; sorting by amount needs the order
  to be linear.
\<close>

record datetime =
  year :: nat
  month :: nat
  day :: nat
  hour :: nat
  minute :: nat
  second :: nat
  microsecond :: nat

datatype date_value = DateStr string | DateTime datetime

record 'a transaction =
  date :: date_value
  txn_type :: string
  amount :: 'a
  category :: string
  description :: string
  verified :: "bool option"
  extracted_text :: "string option"

record user =
  name :: string
  email :: string
  password :: string
  plan :: string
  created_at :: string
  trust_score :: int
  consistency_days :: int
  profile_image :: "string option"

record 'a session_state =
  users_db :: "string \<rightharpoonup> user"
  transactions_db :: "string \<rightharpoonup> 'a transaction list"

datatype error = KeyError | ValueError | AttributeError

section \<open>Reading the store\<close>

text \<open>\<^verbatim>\<open>st.session_state.users_db.get(email, {})\<close>: the profile, if there is one.\<close>

definition get_user_data :: "'a session_state \<Rightarrow> string \<Rightarrow> user option" where
  "get_user_data s em = users_db s em"

text \<open>\<^verbatim>\<open>st.session_state.transactions_db.get(email, [])\<close>.\<close>

definition get_user_transactions :: "'a session_state \<Rightarrow> string \<Rightarrow> 'a transaction list" where
  "get_user_transactions s em = (case transactions_db s em of None \<Rightarrow> [] | Some ts \<Rightarrow> ts)"

text \<open>\<^verbatim>\<open>t.get('verified', False)\<close> used as a condition.\<close>

definition get_verified :: "'a transaction \<Rightarrow> bool" where
  "get_verified t = (case verified t of None \<Rightarrow> False | Some b \<Rightarrow> b)"

section \<open>The calendar date of a transaction\<close>

text \<open>
  \<^verbatim>\<open>t['date'].split(' ')[0] if isinstance(t['date'], str) else t['date'].strftime('%Y-%m-%d')\<close>.
  For a string this is everything before the first space (the whole string when it has
  none).  For a \<^verbatim>\<open>datetime\<close> it is year, month and day in decimal, zero-padded to four,
  two and two digits.  (Python's \<^verbatim>\<open>datetime\<close> has years 1 to 9999; for a year below
  1000 some C libraries print fewer than four digits.)
\<close>

definition digit_char :: "nat \<Rightarrow> char" where
  "digit_char n = char_of (48 + n mod 10)"

definition pad2 :: "nat \<Rightarrow> string" where
  "pad2 n = [digit_char (n div 10), digit_char n]"

definition pad4 :: "nat \<Rightarrow> string" where
  "pad4 n = [digit_char (n div 1000), digit_char (n div 100), digit_char (n div 10), digit_char n]"

definition strftime_Ymd :: "datetime \<Rightarrow> string" where
  "strftime_Ymd d = pad4 (year d) @ ''-'' @ pad2 (month d) @ ''-'' @ pad2 (day d)"

definition date_str :: "'a transaction \<Rightarrow> string" where
  "date_str t =
     (case date t of
        DateStr s \<Rightarrow> takeWhile (\<lambda>c. c \<noteq> CHR '' '') s
      | DateTime d \<Rightarrow> strftime_Ymd d)"

section \<open>The trust score\<close>

text \<open>Python's \<^verbatim>\<open>sum\<close> of a generator: start from 0 and add from left to right.\<close>

definition py_sum :: "'a::{zero,plus} list \<Rightarrow> 'a" where
  "py_sum xs = foldl (+) 0 xs"

text \<open>
  The loop that fills \<^verbatim>\<open>transaction_dates\<close>: one \<^verbatim>\<open>add\<close> per transaction, in
  ledger order.
\<close>

fun collect_dates :: "'a transaction list \<Rightarrow> string set \<Rightarrow> string set" where
  "collect_dates [] acc = acc"
| "collect_dates (t # ts) acc = collect_dates ts (insert (date_str t) acc)"

text \<open>
  The body of \<^verbatim>\<open>calculate_trust_score\<close> once the ledger has been read, statement by
  statement.  The score is a Python \<^verbatim>\<open>int\<close>.
\<close>

definition score_of_transactions :: "'a::{zero,plus,ord} transaction list \<Rightarrow> int" where
  "score_of_transactions transactions =
     (let base_score = 300;
          score = base_score
      in if transactions = [] then score
         else
           let verified_count = int (length (filter get_verified transactions));
               score = score + verified_count * 5;
               score = score + int (length transactions) * 1;
               transaction_dates = collect_dates transactions {};
               consistency_days = int (card transaction_dates);
               score = score + consistency_days * 2;
               score = (if consistency_days \<ge> 30 then score + 20 else score);
               total_income = py_sum (map amount (filter (\<lambda>t. txn_type t = ''Income'') transactions));
               total_expense = py_sum (map amount (filter (\<lambda>t. txn_type t = ''Expense'') transactions));
               score = (if total_income > total_expense then score + 15 else score);
               recent_income = filter (\<lambda>t. txn_type t = ''Income'') transactions;
               score = (if recent_income \<noteq> [] then score + 10 else score);
               score = min score 850
           in score)"

definition calculate_trust_score :: "'a::{zero,plus,ord} session_state \<Rightarrow> string \<Rightarrow> int" where
  "calculate_trust_score s em = score_of_transactions (get_user_transactions s em)"

text \<open>
  \<^verbatim>\<open>update_trust_score\<close> stores the recomputed score in the profile.  The subscript
  \<^verbatim>\<open>users_db[email]\<close> raises \<^verbatim>\<open>KeyError\<close> when there is no profile; the store is then
  left as it was on entry.  The result is the exception, if any, and the store after the
  call.
\<close>

definition update_trust_score ::
  "'a::{zero,plus,ord} session_state \<Rightarrow> string \<Rightarrow> error option \<times> 'a session_state" where
  "update_trust_score s em =
     (let new_score = calculate_trust_score s em
      in case users_db s em of
           None \<Rightarrow> (Some KeyError, s)
         | Some u \<Rightarrow> (None, s\<lparr>users_db := (users_db s)(em \<mapsto> u\<lparr>trust_score := new_score\<rparr>)\<rparr>))"

text \<open>
  \<^verbatim>\<open>save_transaction\<close>: create the ledger if the user has none, insert the transaction
  at index 0, then update the score.  The insertion has already happened when
  \<^verbatim>\<open>update_trust_score\<close> raises.
\<close>

definition save_transaction ::
  "'a::{zero,plus,ord} session_state \<Rightarrow> string \<Rightarrow> 'a transaction \<Rightarrow> error option \<times> 'a session_state" where
  "save_transaction s em transaction_data =
     (let s1 = (if em \<notin> dom (transactions_db s)
                then s\<lparr>transactions_db := (transactions_db s)(em \<mapsto> [])\<rparr> else s)
      in case transactions_db s1 em of
           None \<Rightarrow> (Some KeyError, s1)
         | Some ts \<Rightarrow>
             update_trust_score (s1\<lparr>transactions_db := (transactions_db s1)(em \<mapsto> transaction_data # ts)\<rparr>) em)"

text \<open>\<^verbatim>\<open>get_score_tier\<close>: tier name, colour and level label.\<close>

definition get_score_tier :: "int \<Rightarrow> string \<times> string \<times> string" where
  "get_score_tier score =
     (if score \<ge> 750 then (''Excellent'', ''#4CAF50'', ''LEVEL 5'')
      else if score \<ge> 650 then (''Good'', ''#2196F3'', ''LEVEL 4'')
      else if score \<ge> 500 then (''Building'', ''#FF9800'', ''LEVEL 3'')
      else if score \<ge> 400 then (''Fair'', ''#FFC107'', ''LEVEL 2'')
      else (''Starting'', ''#9E9E9E'', ''LEVEL 1''))"

text \<open>
  The condition of the income-versus-expense rule (\<^verbatim>\<open>total_income > total_expense\<close>),
  named so that theorems can refer to it.
\<close>

definition income_exceeds_expense :: "'a::{zero,plus,ord} transaction list \<Rightarrow> bool" where
  "income_exceeds_expense ts =
     (py_sum (map amount (filter (\<lambda>t. txn_type t = ''Income'') ts))
        > py_sum (map amount (filter (\<lambda>t. txn_type t = ''Expense'') ts)))"

section \<open>The amount extractor\<close>

text \<open>
  \<^verbatim>\<open>extract_amount_from_text\<close> runs \<^verbatim>\<open>re.search\<close> with three patterns, in order, on
  a Python \<^verbatim>\<open>str\<close>.  A \<^verbatim>\<open>str\<close> is a sequence of code points, modelled as a list of
  natural numbers; \<open>ustr\<close> turns an ASCII literal into one.
\<close>

definition ustr :: "string \<Rightarrow> nat list" where
  "ustr s = map of_char s"

subsection \<open>The fragment of \<^verbatim>\<open>re\<close> that the three patterns use\<close>

text \<open>
  Character classes are built from \<^verbatim>\<open>\d\<close>, \<^verbatim>\<open>\s\<close> and single characters.  For a
  \<^verbatim>\<open>str\<close> pattern \<^verbatim>\<open>\s\<close> is Unicode white space, listed here in full.  \<^verbatim>\<open>\d\<close> is
  modelled as the ASCII digits 0 to 9: Python also accepts the decimal digits of other
  scripts, whose table is part of the interpreter; such a character is an ordinary
  non-digit character in this model.
\<close>

datatype citem = Digit | Space | Ch nat

definition is_digit :: "nat \<Rightarrow> bool" where
  "is_digit c = (48 \<le> c \<and> c \<le> 57)"

definition is_space :: "nat \<Rightarrow> bool" where
  "is_space c =
     ((9 \<le> c \<and> c \<le> 13) \<or> (28 \<le> c \<and> c \<le> 32) \<or> c = 0x85 \<or> c = 0xA0 \<or> c = 0x1680
      \<or> (0x2000 \<le> c \<and> c \<le> 0x200A) \<or> c = 0x2028 \<or> c = 0x2029 \<or> c = 0x202F
      \<or> c = 0x205F \<or> c = 0x3000)"

fun in_item :: "citem \<Rightarrow> nat \<Rightarrow> bool" where
  "in_item Digit c = is_digit c"
| "in_item Space c = is_space c"
| "in_item (Ch x) c = (c = x)"

definition in_cls :: "citem list \<Rightarrow> nat \<Rightarrow> bool" where
  "in_cls cl c = list_ex (\<lambda>i. in_item i c) cl"

text \<open>
  Patterns: a literal, one character of a class, a class under \<^verbatim>\<open>?\<close>, \<^verbatim>\<open>*\<close> or
  \<^verbatim>\<open>+\<close> (all greedy), sequence, ordered alternation, and the capturing group.
\<close>

datatype rx =
    Lit "nat list"
  | Cls "citem list"
  | Opt "citem list"
  | Star "citem list"
  | Plus "citem list"
  | Seq rx rx
  | Alt rx rx
  | Grp rx

fun strip_prefix :: "nat list \<Rightarrow> nat list \<Rightarrow> nat list option" where
  "strip_prefix [] s = Some s"
| "strip_prefix (p # ps) [] = None"
| "strip_prefix (p # ps) (c # s) = (if p = c then strip_prefix ps s else None)"

text \<open>
  A backtracking matcher in continuation style, as \<^verbatim>\<open>re\<close> is: \<open>k\<close> is the rest of the
  pattern, applied to the rest of the text; \<open>None\<close> makes the matcher try its next
  choice.  A greedy repetition takes as many characters as it can and gives them back
  one at a time.
\<close>

fun rep :: "citem list \<Rightarrow> nat list \<Rightarrow> (nat list \<Rightarrow> 'r option) \<Rightarrow> 'r option" where
  "rep cl [] k = k []"
| "rep cl (c # s) k =
     (if in_cls cl c
      then (case rep cl s k of Some r \<Rightarrow> Some r | None \<Rightarrow> k (c # s))
      else k (c # s))"

text \<open>
  \<open>rx_match r s g k\<close>: match \<open>r\<close> at the start of \<open>s\<close>, with \<open>g\<close> the text captured
  by group 1 so far (\<open>None\<close> while the group has not taken part).
\<close>

fun rx_match ::
  "rx \<Rightarrow> nat list \<Rightarrow> nat list option \<Rightarrow> (nat list \<Rightarrow> nat list option \<Rightarrow> 'r option) \<Rightarrow> 'r option" where
  "rx_match (Lit l) s g k = (case strip_prefix l s of None \<Rightarrow> None | Some s' \<Rightarrow> k s' g)"
| "rx_match (Cls cl) s g k =
     (case s of [] \<Rightarrow> None | c # s' \<Rightarrow> if in_cls cl c then k s' g else None)"
| "rx_match (Opt cl) s g k =
     (case s of
        [] \<Rightarrow> k [] g
      | c # s' \<Rightarrow>
          if in_cls cl c then (case k s' g of Some r \<Rightarrow> Some r | None \<Rightarrow> k (c # s') g)
          else k (c # s') g)"
| "rx_match (Star cl) s g k = rep cl s (\<lambda>s'. k s' g)"
| "rx_match (Plus cl) s g k =
     (case s of [] \<Rightarrow> None | c # s' \<Rightarrow> if in_cls cl c then rep cl s' (\<lambda>s''. k s'' g) else None)"
| "rx_match (Seq a b) s g k = rx_match a s g (\<lambda>s' g'. rx_match b s' g' k)"
| "rx_match (Alt a b) s g k =
     (case rx_match a s g k of Some r \<Rightarrow> Some r | None \<Rightarrow> rx_match b s g k)"
| "rx_match (Grp a) s g k =
     rx_match a s g (\<lambda>s' g'. k s' (Some (take (length s - length s') s)))"

text \<open>
  \<^verbatim>\<open>re.search\<close>: the match at the leftmost position where the pattern matches.  The
  result is \<open>None\<close> when there is no match, else the match object, of which only
  \<^verbatim>\<open>group(1)\<close> is kept (itself \<open>None\<close> if the group took no part).
\<close>

fun re_search :: "rx \<Rightarrow> nat list \<Rightarrow> nat list option option" where
  "re_search r [] = rx_match r [] None (\<lambda>s g. Some g)"
| "re_search r (c # s) =
     (case rx_match r (c # s) None (\<lambda>s g. Some g) of
        Some g \<Rightarrow> Some g
      | None \<Rightarrow> re_search r s)"

subsection \<open>The three patterns\<close>

text \<open>The number, group 1: \<^verbatim>\<open>(\d+[,.]?\d*\.?\d+)\<close>.\<close>

definition number_group :: rx where
  "number_group =
     Grp (Seq (Plus [Digit]) (Seq (Opt [Ch 44, Ch 46]) (Seq (Star [Digit])
       (Seq (Opt [Ch 46]) (Plus [Digit])))))"

text \<open>The class of currency symbols: the naira sign U+20A6, the dollar sign, the pound sign U+00A3 and the euro sign U+20AC.\<close>

definition currency_symbol :: "citem list" where
  "currency_symbol = [Ch 0x20A6, Ch 36, Ch 0xA3, Ch 0x20AC]"

text \<open>
  The first pattern: one of the six label spellings, \<^verbatim>\<open>[\s:]*\<close>, an optional currency
  symbol, \<^verbatim>\<open>\s*\<close>, the number.
\<close>

definition pattern_label :: rx where
  "pattern_label =
     Seq (Alt (Lit (ustr ''TOTAL'')) (Alt (Lit (ustr ''Total'')) (Alt (Lit (ustr ''total''))
           (Alt (Lit (ustr ''AMOUNT'')) (Alt (Lit (ustr ''Amount'')) (Lit (ustr ''amount'')))))))
      (Seq (Star [Space, Ch 58]) (Seq (Opt currency_symbol) (Seq (Star [Space]) number_group)))"

text \<open>The second pattern: a currency symbol, \<^verbatim>\<open>\s*\<close>, the number.\<close>

definition pattern_symbol :: rx where
  "pattern_symbol = Seq (Cls currency_symbol) (Seq (Star [Space]) number_group)"

text \<open>The third pattern: the number, \<^verbatim>\<open>\s*\<close>, one of \<^verbatim>\<open>NGN|USD|GBP|EUR\<close>.\<close>

definition pattern_code :: rx where
  "pattern_code =
     Seq number_group (Seq (Star [Space])
       (Alt (Lit (ustr ''NGN'')) (Alt (Lit (ustr ''USD'')) (Alt (Lit (ustr ''GBP'')) (Lit (ustr ''EUR''))))))"

definition patterns :: "rx list" where
  "patterns = [pattern_label, pattern_symbol, pattern_code]"

subsection \<open>\<^verbatim>\<open>float\<close> of the matched text\<close>

text \<open>
  A Python \<^verbatim>\<open>float\<close> is a double.  \<open>Finite v\<close> stands for the double nearest to the
  rational \<open>v\<close> (rounding to 53 bits is not modelled); a decimal literal of magnitude at
  least \<open>2 ^ 1024 - 2 ^ 970\<close> converts to an infinity, without an exception.
\<close>

datatype pyfloat = Finite rat | PosInf | NegInf

definition double_overflow :: rat where
  "double_overflow = 2 ^ 1024 - 2 ^ 970"

definition to_double :: "rat \<Rightarrow> pyfloat" where
  "to_double v =
     (if double_overflow \<le> v then PosInf
      else if v \<le> - double_overflow then NegInf
      else Finite v)"

text \<open>The value of a string of ASCII digits, most significant first.\<close>

definition digits_value :: "nat list \<Rightarrow> nat" where
  "digits_value ds = foldl (\<lambda>n c. 10 * n + (c - 48)) 0 ds"

text \<open>
  \<^verbatim>\<open>float(s)\<close> on an optional sign, digits, and at most one point with digits on at
  least one side.  Every other string is answered with \<^verbatim>\<open>ValueError\<close>; Python accepts
  more (surrounding blanks, exponents, underscores, \<^verbatim>\<open>inf\<close>, \<^verbatim>\<open>nan\<close>), but the text
  that reaches \<^verbatim>\<open>float\<close> here consists of digits and points only
  (lemma \<open>search_group_chars\<close> below).
\<close>

definition py_float :: "nat list \<Rightarrow> error + pyfloat" where
  "py_float s =
     (let (negative, body) =
            (case s of
               [] \<Rightarrow> (False, [])
             | c # r \<Rightarrow> if c = 45 then (True, r) else if c = 43 then (False, r) else (False, s));
          int_part = takeWhile is_digit body;
          rest = dropWhile is_digit body;
          frac_part = (case rest of
                         [] \<Rightarrow> Some []
                       | c # r \<Rightarrow> if c = 46 \<and> list_all is_digit r then Some r else None)
      in case frac_part of
           None \<Rightarrow> Inl ValueError
         | Some frac_digits \<Rightarrow>
             if int_part = [] \<and> frac_digits = [] then Inl ValueError
             else
               let magnitude = rat_of_nat (digits_value (int_part @ frac_digits)) / 10 ^ length frac_digits
               in Inr (to_double (if negative then - magnitude else magnitude)))"

subsection \<open>The extractor\<close>

text \<open>
  The loop over the patterns.  \<^verbatim>\<open>match.group(1).replace(',', '')\<close> is outside the
  \<^verbatim>\<open>try\<close>, so a match whose group took no part would raise \<^verbatim>\<open>AttributeError\<close>; a
  \<^verbatim>\<open>float\<close> that raises is caught and the loop goes on.  \<open>Inr None\<close> is the final
  \<^verbatim>\<open>return None\<close>.
\<close>

fun try_patterns :: "rx list \<Rightarrow> nat list \<Rightarrow> error + pyfloat option" where
  "try_patterns [] text = Inr None"
| "try_patterns (pattern # rest) text =
     (case re_search pattern text of
        None \<Rightarrow> try_patterns rest text
      | Some None \<Rightarrow> Inl AttributeError
      | Some (Some group1) \<Rightarrow>
          (let amount_str = filter (\<lambda>c. c \<noteq> 44) group1
           in case py_float amount_str of
                Inl e \<Rightarrow> try_patterns rest text
              | Inr v \<Rightarrow> Inr (Some v)))"

definition extract_amount_from_text :: "nat list \<Rightarrow> error + pyfloat option" where
  "extract_amount_from_text text = try_patterns patterns text"

subsection \<open>What a pattern can consume and capture\<close>






section \<open>Listing transactions\<close>

text \<open>\<^verbatim>\<open>sub in s\<close> on strings: \<open>sub\<close> occurs in \<open>s\<close> as a contiguous substring.\<close>

fun starts_with :: "string \<Rightarrow> string \<Rightarrow> bool" where
  "starts_with [] s = True"
| "starts_with (p # ps) [] = False"
| "starts_with (p # ps) (c # s) = (p = c \<and> starts_with ps s)"

fun py_in :: "string \<Rightarrow> string \<Rightarrow> bool" where
  "py_in sub [] = (sub = [])"
| "py_in sub (c # s) = (starts_with sub (c # s) \<or> py_in sub s)"

text \<open>
  \<^verbatim>\<open>sorted(xs, key=..., reverse=...)\<close>.  Python's sort is stable; with
  \<^verbatim>\<open>reverse=True\<close> the list is reversed, sorted and reversed again, so that equal keys
  still keep their original order.
\<close>

definition py_sorted :: "('a \<Rightarrow> 'k::linorder) \<Rightarrow> bool \<Rightarrow> 'a list \<Rightarrow> 'a list" where
  "py_sorted key reverse xs = (if reverse then rev (sort_key key (rev xs)) else sort_key key xs)"

text \<open>
  The list that \<^verbatim>\<open>transactions_page\<close> displays, from the ledger and the values of the
  three select boxes: \<^verbatim>\<open>filter_type\<close> is one of All, Income, Expense;
  \<^verbatim>\<open>filter_verified\<close> one of All, Verified Only, Unverified Only; \<^verbatim>\<open>sort_by\<close> one of
  Date (Newest), Date (Oldest), Amount (High-Low), Amount (Low-High).  (For an empty
  ledger the page shows a notice instead of the empty list.)
\<close>

definition transactions_page ::
  "'a::linorder transaction list \<Rightarrow> string \<Rightarrow> string \<Rightarrow> string \<Rightarrow> 'a transaction list" where
  "transactions_page transactions filter_type filter_verified sort_by =
     (let filtered = transactions;
          filtered = (if filter_type \<noteq> ''All''
                      then filter (\<lambda>t. txn_type t = filter_type) filtered else filtered);
          filtered = (if filter_verified = ''Verified Only'' then filter get_verified filtered
                      else if filter_verified = ''Unverified Only''
                      then filter (\<lambda>t. \<not> get_verified t) filtered
                      else filtered);
          filtered = (if py_in ''Amount'' sort_by
                      then py_sorted amount (py_in ''High'' sort_by) filtered else filtered)
      in filtered)"

text \<open>
  The order of two \<^verbatim>\<open>datetime\<close> values (both without time zone): by year, then month,
  day, hour, minute, second, microsecond.
\<close>

fun lex_less :: "nat list \<Rightarrow> nat list \<Rightarrow> bool" where
  "lex_less (x # xs) (y # ys) = (x < y \<or> (x = y \<and> lex_less xs ys))"
| "lex_less [] (y # ys) = True"
| "lex_less xs [] = False"

definition datetime_fields :: "datetime \<Rightarrow> nat list" where
  "datetime_fields d = [year d, month d, day d, hour d, minute d, second d, microsecond d]"

definition datetime_less :: "datetime \<Rightarrow> datetime \<Rightarrow> bool" where
  "datetime_less a b = lex_less (datetime_fields a) (datetime_fields b)"

section \<open>Concrete stores, transactions and receipt texts\<close>

text \<open>Values at which the theorems below are instantiated.  Amounts are rationals here.\<close>

definition nine_am :: "nat \<Rightarrow> nat \<Rightarrow> nat \<Rightarrow> datetime" where
  "nine_am y m d = \<lparr>year = y, month = m, day = d, hour = 9, minute = 0, second = 0, microsecond = 0\<rparr>"

definition salary_100 :: "rat transaction" where
  "salary_100 = \<lparr>date = DateTime (nine_am 2024 3 1), txn_type = ''Income'', amount = 100,
     category = ''Salary'', description = [], verified = Some False, extracted_text = None\<rparr>"

definition rent_200 :: "rat transaction" where
  "rent_200 = \<lparr>date = DateTime (nine_am 2024 3 1), txn_type = ''Expense'', amount = 200,
     category = ''Rent'', description = [], verified = Some False, extracted_text = None\<rparr>"

definition fee_march_2 :: "rat transaction" where
  "fee_march_2 = \<lparr>date = DateTime (nine_am 2024 3 2), txn_type = ''Income'', amount = 40,
     category = ''Freelance Pay'', description = [], verified = Some False, extracted_text = None\<rparr>"

definition grocery_on :: "nat \<Rightarrow> rat transaction" where
  "grocery_on d = \<lparr>date = DateTime (nine_am 2024 4 d), txn_type = ''Expense'', amount = 10,
     category = ''Grocery'', description = [], verified = Some False, extracted_text = None\<rparr>"

definition ada :: user where
  "ada = \<lparr>name = ''Ada'', email = ''ada@example.org'', password = [], plan = ''free'',
     created_at = ''2024-03-01T09:00:00'', trust_score = 328, consistency_days = 0,
     profile_image = None\<rparr>"

definition no_store :: "rat session_state" where
  "no_store = \<lparr>users_db = Map.empty, transactions_db = Map.empty\<rparr>"

definition ada_store :: "rat session_state" where
  "ada_store = \<lparr>users_db = [''ada@example.org'' \<mapsto> ada],
                transactions_db = [''ada@example.org'' \<mapsto> [salary_100]]\<rparr>"

definition april_store :: "rat session_state" where
  "april_store = \<lparr>users_db = [''ada@example.org'' \<mapsto> ada],
                  transactions_db = [''ada@example.org'' \<mapsto> map grocery_on (rev [1..<31])]\<rparr>"

text \<open>The second sample receipt of the form: the label, the naira sign U+20A6, the amount.\<close>

definition amount_due :: "nat list" where
  "amount_due = ustr ''Amount Due: '' @ [0x20A6] @ ustr ''1,250.00''"

definition no_total :: "nat list" where
  "no_total = ustr ''no recognizable total here''"



section \<open>Properties of the score\<close>

lemma collect_dates_eq: "collect_dates ts acc = date_str ` set ts \<union> acc"
  by (induction ts arbitrary: acc) auto

lemma if_add_int: "(if c then s + k else s) = s + (if c then k else (0::int))"
  by simp

text \<open>The score in closed form: base, five additive rules, cap.\<close>

lemma score_formula:
  "score_of_transactions ts =
     (if ts = [] then 300
      else min (300 + int (length (filter get_verified ts)) * 5 + int (length ts)
                + int (card (date_str ` set ts)) * 2
                + (if 30 \<le> card (date_str ` set ts) then 20 else 0)
                + (if income_exceeds_expense ts then 15 else 0)
                + (if filter (\<lambda>t. txn_type t = ''Income'') ts \<noteq> [] then 10 else 0)) 850)"
  unfolding score_of_transactions_def Let_def collect_dates_eq if_add_int income_exceeds_expense_def
  by (simp split del: if_split cong: if_cong)

lemma score_of_transactions_bounds:
  "300 \<le> score_of_transactions ts \<and> score_of_transactions ts \<le> 850"
proof (cases "ts = []")
  case True
  then show ?thesis by (simp add: score_formula)
next
  case False
  have nn: "(0::int) \<le> (if c then k else 0)" if "0 \<le> k" for c k
    using that by simp
  show ?thesis
    unfolding score_formula using False
    by (simp split del: if_split add: add_nonneg_nonneg nn)
qed

text \<open>
  Claim C1.  For every store and every user, the recomputed score is an integer between
  300 and 850: the base is 300, each rule adds a non-negative quantity, and the last
  statement caps the value at 850.
\<close>

theorem score_bounds:
  "300 \<le> calculate_trust_score s em \<and> calculate_trust_score s em \<le> 850"
  unfolding calculate_trust_score_def by (rule score_of_transactions_bounds)

text \<open>
  Claim C2.  A user whose ledger is empty (absent or the empty list) has score exactly
  300, and that score is classified as tier Starting with level label LEVEL 1.
\<close>

theorem empty_ledger_score:
  assumes "get_user_transactions s em = []"
  shows "calculate_trust_score s em = 300 \<and>
         get_score_tier (calculate_trust_score s em) = (''Starting'', ''#9E9E9E'', ''LEVEL 1'')"
  using assms by (simp add: calculate_trust_score_def score_of_transactions_def get_score_tier_def)

theorem empty_ledger_score_witness:
  "get_user_transactions no_store ''ada@example.org'' = [] \<and>
   calculate_trust_score no_store ''ada@example.org'' = 300 \<and>
   get_score_tier (calculate_trust_score no_store ''ada@example.org'')
     = (''Starting'', ''#9E9E9E'', ''LEVEL 1'')"
proof -
  have h: "get_user_transactions no_store ''ada@example.org'' = []"
    by (simp add: get_user_transactions_def no_store_def)
  from empty_ledger_score [OF h] h show ?thesis by (simp add: get_score_tier_def)
qed

subsection \<open>Saving a transaction\<close>

text \<open>Whether or not the profile exists, the transaction is at the head of the ledger afterwards.\<close>

lemma save_transaction_ledger:
  "get_user_transactions (snd (save_transaction s em t)) em = t # get_user_transactions s em"
  by (auto simp add: save_transaction_def update_trust_score_def get_user_transactions_def Let_def
           split: option.splits)

text \<open>
  Claim C4.  When the user has a profile, \<^verbatim>\<open>save_transaction\<close> returns normally, the new
  transaction is at the head of the ledger, and the score cached in the profile equals
  the score recomputed over the whole ledger of the resulting store.
\<close>

theorem cached_score_consistent:
  assumes "users_db s em = Some u"
  shows "\<exists>s' u'. save_transaction s em t = (None, s') \<and>
           get_user_transactions s' em = t # get_user_transactions s em \<and>
           users_db s' em = Some u' \<and>
           trust_score u' = calculate_trust_score s' em"
  using assms
  by (auto simp add: save_transaction_def update_trust_score_def get_user_transactions_def
        calculate_trust_score_def Let_def split: option.splits)

theorem cached_score_consistent_witness:
  "users_db ada_store ''ada@example.org'' = Some ada \<and>
   (\<exists>s' u'. save_transaction ada_store ''ada@example.org'' rent_200 = (None, s') \<and>
           get_user_transactions s' ''ada@example.org'' = rent_200 # get_user_transactions ada_store ''ada@example.org'' \<and>
           users_db s' ''ada@example.org'' = Some u' \<and>
           trust_score u' = calculate_trust_score s' ''ada@example.org'')"
proof -
  have h: "users_db ada_store ''ada@example.org'' = Some ada"
    by (simp add: ada_store_def)
  from cached_score_consistent [OF h] h show ?thesis by blast
qed

subsection \<open>The score under an append\<close>

text \<open>
  One more transaction raises every term of the closed form except the
  income-versus-expense bonus, which can be lost; the count term gains one.
\<close>

lemma score_append:
  fixes ts :: "'a::{zero,plus,ord} transaction list"
  shows "score_of_transactions ts - 14 \<le> score_of_transactions (t # ts)"
    and "(income_exceeds_expense ts \<longrightarrow> income_exceeds_expense (t # ts)) \<Longrightarrow>
           score_of_transactions ts \<le> score_of_transactions (t # ts)"
proof -
  let ?inc = "\<lambda>t::'a transaction. txn_type t = ''Income''"
  define D where "D = int (card (date_str ` set ts))"
  define D' where "D' = int (card (date_str ` set (t # ts)))"
  define S where "S = (if 30 \<le> D then 20 else (0::int))"
  define S' where "S' = (if 30 \<le> D' then 20 else (0::int))"
  define E where "E = (if income_exceeds_expense ts then 15 else (0::int))"
  define E' where "E' = (if income_exceeds_expense (t # ts) then 15 else (0::int))"
  define I where "I = (if filter ?inc ts \<noteq> [] then 10 else (0::int))"
  define I' where "I' = (if filter ?inc (t # ts) \<noteq> [] then 10 else (0::int))"
  define V where "V = int (length (filter get_verified ts))"
  define V' where "V' = int (length (filter get_verified (t # ts)))"
  define X where "X = 300 + V * 5 + int (length ts) + D * 2 + S + E + I"
  define X' where "X' = 300 + V' * 5 + int (length (t # ts)) + D' * 2 + S' + E' + I'"
  note defs = D_def D'_def S_def S'_def E_def E'_def I_def I'_def V_def V'_def X_def X'_def
  have "card (date_str ` set ts) \<le> card (date_str ` set (t # ts))"
    by (rule card_mono) auto
  then have D: "D \<le> D'"
    by (simp add: D_def D'_def)
  then have S: "S \<le> S'"
    by (simp add: S_def S'_def)
  have I: "I \<le> I'"
    by (simp add: I_def I'_def)
  have V: "V \<le> V'"
    by (simp add: V_def V'_def)
  have E: "E - 15 \<le> E'"
    by (simp add: E_def E'_def)
  have nn: "0 \<le> V" "0 \<le> D" "0 \<le> S" "0 \<le> E" "0 \<le> I"
    by (simp_all add: defs)
  have new: "score_of_transactions (t # ts) = min X' 850"
    unfolding score_formula defs by simp
  have old: "score_of_transactions ts = (if ts = [] then 300 else min X 850)"
    unfolding score_formula defs by simp
  have len: "int (length (t # ts)) = int (length ts) + 1"
    by simp
  have low: "300 \<le> X"
    unfolding X_def using nn by linarith
  have step: "X - 14 \<le> X'"
    unfolding X_def X'_def len using D S I V E by linarith
  show "score_of_transactions ts - 14 \<le> score_of_transactions (t # ts)"
    unfolding new old using step low by (simp add: min_def)
  show "score_of_transactions ts \<le> score_of_transactions (t # ts)"
    if keep: "income_exceeds_expense ts \<longrightarrow> income_exceeds_expense (t # ts)"
  proof -
    from keep have "E \<le> E'"
      by (simp add: E_def E'_def)
    then have "X \<le> X'"
      unfolding X_def X'_def len using D S I V by linarith
    then show ?thesis
      unfolding new old using low by (simp add: min_def)
  qed
qed

text \<open>
  Claim C3, as the code has it.  Saving a transaction does not lower the score, unless
  the save turns \<^verbatim>\<open>total_income > total_expense\<close> from true to false.
\<close>

theorem append_score_change:
  fixes s :: "'a::{zero,plus,ord} session_state"
  assumes "income_exceeds_expense (get_user_transactions s em) \<longrightarrow>
           income_exceeds_expense (t # get_user_transactions s em)"
  shows "calculate_trust_score s em \<le> calculate_trust_score (snd (save_transaction s em t)) em"
  unfolding calculate_trust_score_def save_transaction_ledger
  using assms by (rule score_append(2))

theorem append_score_change_witness:
  "income_exceeds_expense (get_user_transactions ada_store ''ada@example.org'') \<and>
   income_exceeds_expense (salary_100 # get_user_transactions ada_store ''ada@example.org'') \<and>
   calculate_trust_score ada_store ''ada@example.org''
     \<le> calculate_trust_score (snd (save_transaction ada_store ''ada@example.org'' salary_100)) ''ada@example.org''"
proof -
  have a: "income_exceeds_expense (get_user_transactions ada_store ''ada@example.org'')"
    by (simp add: get_user_transactions_def ada_store_def income_exceeds_expense_def py_sum_def salary_100_def)
  have b: "income_exceeds_expense (salary_100 # get_user_transactions ada_store ''ada@example.org'')"
    by (simp add: get_user_transactions_def ada_store_def income_exceeds_expense_def py_sum_def salary_100_def)
  from b have "income_exceeds_expense (get_user_transactions ada_store ''ada@example.org'') \<longrightarrow>
      income_exceeds_expense (salary_100 # get_user_transactions ada_store ''ada@example.org'')"
    by simp
  from append_score_change [OF this] a b show ?thesis by simp
qed

text \<open>When the save does turn the test from true to false, the score drops by at most 14.\<close>

lemma append_score_drop:
  fixes s :: "'a::{zero,plus,ord} session_state"
  shows "calculate_trust_score s em - 14 \<le> calculate_trust_score (snd (save_transaction s em t)) em"
  unfolding calculate_trust_score_def save_transaction_ledger by (rule score_append(1))

text \<open>
  Claim C3 as stated fails: with one income of 100 on record (score 328), saving an
  unverified expense of 200 on the same day gives 314: one point for the transaction,
  fifteen lost with the income-over-expense bonus.
\<close>

theorem append_decreases_score:
  "calculate_trust_score (snd (save_transaction ada_store ''ada@example.org'' rent_200)) ''ada@example.org'' = 314
   \<and> calculate_trust_score ada_store ''ada@example.org'' = 328"
  unfolding calculate_trust_score_def save_transaction_ledger
  by (simp add: get_user_transactions_def ada_store_def score_formula
      salary_100_def rent_200_def get_verified_def date_str_def nine_am_def income_exceeds_expense_def py_sum_def)

subsection \<open>Thirty days of expenses\<close>

lemma foldl_add_ge:
  fixes a :: "'a::ordered_comm_monoid_add"
  shows "\<forall>x\<in>set xs. 0 \<le> x \<Longrightarrow> a \<le> foldl (+) a xs"
proof (induction xs arbitrary: a)
  case Nil
  then show ?case by simp
next
  case (Cons x xs)
  then have "a + x \<le> foldl (+) (a + x) xs" by simp
  moreover have "a \<le> a + x" using Cons.prems by (simp add: add_increasing2)
  ultimately show ?case by simp
qed

text \<open>
  Claim C5.  A ledger of exactly 30 transactions on 30 distinct calendar dates, all
  unverified, all of type Expense with amount 10, scores
  300 + 0 + 30 + 60 + 20 + 0 + 0 = 410.
\<close>

theorem thirty_expense_days_score:
  fixes s :: "'a::linordered_idom session_state"
  assumes len: "length (get_user_transactions s em) = 30"
    and dates: "distinct (map date_str (get_user_transactions s em))"
    and all: "\<forall>t\<in>set (get_user_transactions s em).
                \<not> get_verified t \<and> txn_type t = ''Expense'' \<and> amount t = 10"
  shows "calculate_trust_score s em = 410"
proof -
  let ?ts = "get_user_transactions s em"
  have ne: "?ts \<noteq> []" using len by auto
  have v: "filter get_verified ?ts = []"
    using all by (simp add: filter_empty_conv)
  have i: "filter (\<lambda>t. txn_type t = ''Income'') ?ts = []"
    using all by (auto simp add: filter_empty_conv)
  have "card (set (map date_str ?ts)) = length (map date_str ?ts)"
    using dates by (rule distinct_card)
  then have d: "card (date_str ` set ?ts) = 30"
    using len by simp
  have "\<forall>x\<in>set (map amount (filter (\<lambda>t. txn_type t = ''Expense'') ?ts)). (0::'a) \<le> x"
    using all by auto
  then have "(0::'a) \<le> foldl (+) 0 (map amount (filter (\<lambda>t. txn_type t = ''Expense'') ?ts))"
    by (rule foldl_add_ge)
  then have e: "\<not> income_exceeds_expense ?ts"
    by (simp add: income_exceeds_expense_def py_sum_def i not_less)
  show ?thesis
    unfolding calculate_trust_score_def score_formula
    using ne len by (simp add: v i d e)
qed

lemma upt_31: "[1..<31] = [1,2,3,4,5,6,7,8,9,10,11,12,13,14,15,16,17,18,19,20,21,22,23,24,25,26,27,28,29,30]"
  by (simp add: upt_rec)

lemma april_ledger: "get_user_transactions april_store ''ada@example.org'' = map grocery_on (rev [1..<31])"
  by (simp add: april_store_def get_user_transactions_def)

lemma april_dates: "distinct (map date_str (map grocery_on (rev [1..<31])))"
  unfolding upt_31
  by (simp add: grocery_on_def date_str_def nine_am_def strftime_Ymd_def pad2_def pad4_def digit_char_def)

theorem thirty_expense_days_score_witness:
  "length (get_user_transactions april_store ''ada@example.org'') = 30 \<and>
   distinct (map date_str (get_user_transactions april_store ''ada@example.org'')) \<and>
   list_all (\<lambda>t. \<not> get_verified t \<and> txn_type t = ''Expense'' \<and> amount t = 10)
     (get_user_transactions april_store ''ada@example.org'') \<and>
   calculate_trust_score april_store ''ada@example.org'' = 410"
proof -
  have l: "length (get_user_transactions april_store ''ada@example.org'') = 30"
    by (simp add: april_ledger)
  have d: "distinct (map date_str (get_user_transactions april_store ''ada@example.org''))"
    unfolding april_ledger by (rule april_dates)
  have a: "\<forall>t\<in>set (get_user_transactions april_store ''ada@example.org'').
       \<not> get_verified t \<and> txn_type t = ''Expense'' \<and> amount t = 10"
    unfolding april_ledger by (simp add: grocery_on_def get_verified_def)
  from thirty_expense_days_score [OF l d a] l d a show ?thesis by (simp add: list_all_iff)
qed

section \<open>Properties of the amount extractor\<close>

subsection \<open>What the matcher consumes\<close>









subsection \<open>The value of the matched text\<close>

lemmas rx_defs = pattern_label_def pattern_symbol_def pattern_code_def number_group_def
  currency_symbol_def in_cls_def is_digit_def is_space_def

lemmas float_defs = py_float_def is_digit_def digits_value_def to_double_def double_overflow_def











subsection \<open>No match\<close>

lemma no_match_all:
  "list_all (\<lambda>p. re_search p inp = None) ps \<Longrightarrow> try_patterns ps inp = Inr None"
  by (induction ps) simp_all

lemma no_total_searches:
  "re_search pattern_label no_total = None"
  "re_search pattern_symbol no_total = None"
  "re_search pattern_code no_total = None"
  by (simp_all add: rx_defs ustr_def no_total_def)

text \<open>
  Claim C8.  When none of the three patterns matches, the extractor returns NotFound
  (\<open>Inr None\<close>: no exception, no value); the text \<^verbatim>\<open>no recognizable total here\<close> is
  such an input, although it contains the label \<^verbatim>\<open>total\<close>.
\<close>

theorem no_match_not_found:
  "((\<forall>p\<in>set patterns. re_search p inp = None) \<longrightarrow> extract_amount_from_text inp = Inr None) \<and>
   extract_amount_from_text no_total = Inr None"
proof
  show "(\<forall>p\<in>set patterns. re_search p inp = None) \<longrightarrow> extract_amount_from_text inp = Inr None"
    unfolding extract_amount_from_text_def by (simp add: no_match_all list_all_iff)
  show "extract_amount_from_text no_total = Inr None"
    by (simp add: extract_amount_from_text_def patterns_def no_total_searches del: re_search.simps)
qed

theorem no_match_not_found_witness:
  "list_all (\<lambda>p. re_search p (ustr ''Cash only'') = None) patterns \<and>
   extract_amount_from_text (ustr ''Cash only'') = Inr None"
proof -
  have h: "list_all (\<lambda>p. re_search p (ustr ''Cash only'') = None) patterns"
    by (simp add: patterns_def rx_defs ustr_def)
  with no_match_not_found [of "ustr ''Cash only''"] show ?thesis
    by (simp add: list_all_iff)
qed

subsection \<open>The sample receipts\<close>

text \<open>
  The order of the list is the priority: a pattern that matches and whose number parses
  decides the result, whatever the later patterns would find; a pattern that does not
  match leaves the decision to the later ones.
\<close>

lemma first_parse_wins:
  "re_search p inp = Some (Some g) \<Longrightarrow> py_float (filter (\<lambda>c. c \<noteq> 44) g) = Inr v \<Longrightarrow>
     try_patterns (p # ps) inp = Inr (Some v)"
  by simp

lemma no_match_skips:
  "re_search p inp = None \<Longrightarrow> try_patterns (p # ps) inp = try_patterns ps inp"
  by simp

lemma amount_due_text:
  "amount_due = [65,109,111,117,110,116,32,68,117,101,58,32,8358,49,44,50,53,48,46,48,48]"
  by (simp add: amount_due_def ustr_def)

lemma amount_due_label: "re_search pattern_label amount_due = None"
  unfolding amount_due_text by (simp add: rx_defs ustr_def)

lemma amount_due_symbol: "re_search pattern_symbol amount_due = Some (Some (ustr ''1,250.00''))"
  unfolding amount_due_text by (simp add: rx_defs ustr_def)

lemma amount_due_strip: "filter (\<lambda>c. c \<noteq> 44) (ustr ''1,250.00'') = ustr ''1250.00''"
  by (simp add: ustr_def)

lemma amount_due_float: "py_float (ustr ''1250.00'') = Inr (Finite 1250)"
  by (simp add: float_defs ustr_def)

text \<open>
  Claim C7.  On \<^verbatim>\<open>Amount Due: \<close> followed by the naira sign and \<^verbatim>\<open>1,250.00\<close> the
  extractor returns 1250.  The patterns are tried in the order label, currency symbol,
  currency code: the label pattern does not match here (after \<^verbatim>\<open>Amount\<close> comes
  \<^verbatim>\<open>Due\<close>, not a number), the symbol pattern captures \<^verbatim>\<open>1,250.00\<close>, and the comma is
  removed before \<^verbatim>\<open>float\<close>.
\<close>

theorem amount_due_extracted:
  "patterns = [pattern_label, pattern_symbol, pattern_code] \<and>
   re_search pattern_label amount_due = None \<and>
   re_search pattern_symbol amount_due = Some (Some (ustr ''1,250.00'')) \<and>
   filter (\<lambda>c. c \<noteq> 44) (ustr ''1,250.00'') = ustr ''1250.00'' \<and>
   extract_amount_from_text amount_due = Inr (Some (Finite 1250))"
  by (simp add: extract_amount_from_text_def patterns_def amount_due_label amount_due_symbol
      amount_due_strip amount_due_float del: re_search.simps)

subsection \<open>Labelled totals that are not read back\<close>

lemma total_5_searches:
  "re_search pattern_label (ustr ''TOTAL: $5'') = None"
  "re_search pattern_symbol (ustr ''TOTAL: $5'') = None"
  "re_search pattern_code (ustr ''TOTAL: $5'') = None"
  by (simp_all add: rx_defs ustr_def)

lemma total_million_search:
  "re_search pattern_label (ustr ''TOTAL: $1,234,567.89'') = Some (Some (ustr ''1,234''))"
  by (simp add: rx_defs ustr_def)

lemma total_million_float: "py_float (filter (\<lambda>c. c \<noteq> 44) (ustr ''1,234'')) = Inr (Finite 1234)"
  by (simp add: float_defs ustr_def)

text \<open>
  Claim C6 fails on the code.  The number pattern ends in \<^verbatim>\<open>\d+\<close> after a first
  \<^verbatim>\<open>\d+\<close>, so it needs two digits: \<^verbatim>\<open>TOTAL: $5\<close> is NotFound.  It allows one
  separator before the point, so \<^verbatim>\<open>TOTAL: $1,234,567.89\<close> is read as 1234.
\<close>

theorem total_not_read_back:
  "extract_amount_from_text (ustr ''TOTAL: $5'') = Inr None \<and>
   extract_amount_from_text (ustr ''TOTAL: $1,234,567.89'') = Inr (Some (Finite 1234))"
  by (simp add: extract_amount_from_text_def patterns_def total_5_searches total_million_search
      total_million_float del: re_search.simps)

section \<open>Properties of the transaction list\<close>

lemma py_sorted_stable:
  "filter (\<lambda>t. key t = k) (py_sorted key reverse xs) = filter (\<lambda>t. key t = k) xs"
  by (simp add: py_sorted_def sort_key_stable flip: rev_filter)

lemma py_sorted_ascending: "sorted (map key (py_sorted key False xs))"
  by (simp add: py_sorted_def)

lemma py_sorted_descending: "sorted (rev (map key (py_sorted key True xs)))"
  by (simp add: py_sorted_def rev_map)

text \<open>
  \<^verbatim>\<open>"High" in sort_by\<close> holds for Amount (High-Low) and for Amount (Low-High) alike, so
  both sort by amount from high to low; equal amounts stay in ledger order.
\<close>

lemma high_in_both:
  "py_in ''High'' ''Amount (High-Low)''" "py_in ''High'' ''Amount (Low-High)''"
  by simp_all

lemma amount_orders_same:
  "transactions_page ts ft fv ''Amount (Low-High)'' = transactions_page ts ft fv ''Amount (High-Low)''"
  by (simp add: transactions_page_def Let_def)

lemma amount_high_low:
  "sorted (rev (map amount (transactions_page ts ft fv ''Amount (High-Low)''))) \<and>
   filter (\<lambda>t. amount t = a) (transactions_page ts ft fv ''Amount (High-Low)'')
     = filter (\<lambda>t. amount t = a) (transactions_page ts ft fv ''Date (Newest)'')"
  by (simp add: transactions_page_def Let_def py_sorted_stable py_sorted_descending)

text \<open>Any other value of \<^verbatim>\<open>sort_by\<close> leaves the filtered ledger as it is.\<close>

lemma date_orders_same:
  "transactions_page ts ft fv ''Date (Oldest)'' = transactions_page ts ft fv ''Date (Newest)''"
  by (simp add: transactions_page_def Let_def)

lemma date_order_unsorted: "transactions_page ts ''All'' ''All'' ''Date (Newest)'' = ts"
  by (simp add: transactions_page_def Let_def)

text \<open>
  Claim C9 fails on the code for three of the four orders.  \<^verbatim>\<open>sorted\<close> is only called
  when \<^verbatim>\<open>sort_by\<close> contains \<^verbatim>\<open>Amount\<close>, so the date orders leave the ledger as it is:
  with the transaction of 1 March saved after the one of 2 March, Date (Newest) lists
  1 March first, and with the two saved the other way round Date (Oldest) lists 2 March
  first.  And Amount (Low-High) sorts from high to low: 100 comes before 40.
\<close>

theorem sort_orders_not_applied:
  "transactions_page [salary_100, fee_march_2] ''All'' ''All'' ''Date (Newest)''
     = [salary_100, fee_march_2] \<and>
   transactions_page [fee_march_2, salary_100] ''All'' ''All'' ''Date (Oldest)''
     = [fee_march_2, salary_100] \<and>
   date salary_100 = DateTime (nine_am 2024 3 1) \<and>
   date fee_march_2 = DateTime (nine_am 2024 3 2) \<and>
   datetime_less (nine_am 2024 3 1) (nine_am 2024 3 2) \<and>
   transactions_page [fee_march_2, salary_100] ''All'' ''All'' ''Amount (Low-High)''
     = [salary_100, fee_march_2] \<and>
   amount salary_100 = 100 \<and> amount fee_march_2 = 40"
  by (simp add: transactions_page_def Let_def py_sorted_def salary_100_def fee_march_2_def
      datetime_less_def datetime_fields_def nine_am_def)

end
